theory Spec2Isabelle
  imports Main "HOL-Library.Word"
begin

section \<open>The attach sequence of the module (dllmain.cpp)\<close>

text \<open>
  The module is a DLL whose entry point \<^verbatim>\<open>DllMain\<close> runs \<^verbatim>\<open>Init_Main\<close> when the
  loader notifies it of a process attach. Both functions are sequences of calls into
  collaborators that live in other files (the version detection, the logger, the input
  hooks, the settings), interleaved with a few queries of the file system and the
  creation of one file.

  The model is a state-passing embedding with exceptions:
  \<^item> the mutable state is a record of the two globals the code writes
    (\<^verbatim>\<open>g_module_handle\<close>, \<^verbatim>\<open>re4ap::cfg->bIsUsingHDProject\<close>), the file system, and
    the trace of calls made into collaborators so far;
  \<^item> every statement is a function from the state to a result and a new state; the
    result is either a value or \<open>Thrown\<close>, a C++ exception on its way up the stack.
    Neither function of the source has a \<^verbatim>\<open>try\<close> block, so an exception leaves
    \<^verbatim>\<open>Init_Main\<close> and then \<^verbatim>\<open>DllMain\<close>;
  \<^item> what the collaborators do is a parameter (\<open>env\<close>): whether a call throws, the
    truth value it returns, and the values of globals and macros defined elsewhere. A
    call into a collaborator adds itself to the trace and changes nothing else of the
    state: the files and the two globals are written by the code of this file only.
\<close>

subsection \<open>Data\<close>

text \<open>
  What the file system knows of a path: nothing there, something there (with its
  content), or a status query that fails with an operating-system error. The throwing
  overload of \<^verbatim>\<open>std::filesystem::exists\<close>, the one the source calls, raises
  \<^verbatim>\<open>filesystem_error\<close> in the last case.
\<close>

datatype fstatus = Absent | Present string | AccessError

text \<open>The collaborators called by name, and the calls recorded in the trace.\<close>

datatype callee =
  Init_Wrappers | ExceptionHandler | Game | LogProcessNameAndPID
  | HDProject | Input_init | ReadConnection

datatype event = Con_log string | Spd_info string | Call callee

text \<open>
  The surroundings of one run of the entry point. \<open>returns c\<close> is the truth value
  collaborator \<open>c\<close> hands back where it has one; the source reads it for \<open>Game\<close> only.
  \<open>rootPath\<close>, \<open>GameVersion\<close>, \<open>GIT_CUR_COMMIT\<close> and \<open>GIT_BRANCH\<close> are a global, an
  accessor and two macros of files outside this one. \<open>canonical\<close> is
  \<^verbatim>\<open>std::filesystem::canonical\<close> (\<open>None\<close> when it throws), \<open>parent_path\<close> is
  \<^verbatim>\<open>path::parent_path\<close>, \<open>can_open\<close> says whether an \<^verbatim>\<open>ofstream\<close> on the path
  opens, and \<open>flushed\<close> says how many of the characters given to a stream on the path
  have reached the file when the stream is closed.
\<close>

record env =
  throws :: "event \<Rightarrow> bool"
  returns :: "callee \<Rightarrow> bool"
  rootPath :: string
  GameVersion :: string
  GIT_CUR_COMMIT :: string
  GIT_BRANCH :: string
  canonical :: "string \<Rightarrow> string option"
  parent_path :: "string \<Rightarrow> string"
  can_open :: "string \<Rightarrow> bool"
  flushed :: "string \<Rightarrow> nat"

record state =
  g_module_handle :: nat
  bIsUsingHDProject :: bool
  files :: "string \<Rightarrow> fstatus"
  trace :: "event list"

datatype 'a result = Returned 'a | Thrown

type_synonym 'a prog = "state \<Rightarrow> 'a result \<times> state"

subsection \<open>Sequencing\<close>

definition ret :: "'a \<Rightarrow> 'a prog" where
  "ret a s = (Returned a, s)"

definition throw :: "'a prog" where
  "throw s = (Thrown, s)"

text \<open>\<open>seq m f\<close> is \<^verbatim>\<open>m; f\<close>: an exception in \<open>m\<close> skips \<open>f\<close>.\<close>

definition seq :: "'a prog \<Rightarrow> ('a \<Rightarrow> 'b prog) \<Rightarrow> 'b prog" where
  "seq m f s = (case m s of (Thrown, s') \<Rightarrow> (Thrown, s') | (Returned a, s') \<Rightarrow> f a s')"

text \<open>The short-circuit \<^verbatim>\<open>&&\<close>: the right operand is evaluated only when the left is true.\<close>

definition and_also :: "bool prog \<Rightarrow> bool prog \<Rightarrow> bool prog" where
  "and_also p q = seq p (\<lambda>a. if a then q else ret False)"

text \<open>
  A call into a collaborator: it is recorded, then it returns or throws as the
  environment says.
\<close>

definition external :: "env \<Rightarrow> event \<Rightarrow> unit prog" where
  "external e ev s =
     (if throws e ev then Thrown else Returned (), s\<lparr>trace := trace s @ [ev]\<rparr>)"

subsection \<open>File system\<close>

definition fs_exists :: "string \<Rightarrow> bool prog" where
  "fs_exists p s =
     (case files s p of
        Absent \<Rightarrow> (Returned False, s)
      | Present c \<Rightarrow> (Returned True, s)
      | AccessError \<Rightarrow> (Thrown, s))"

text \<open>
  \<^verbatim>\<open>std::ofstream f(p); f << c; f.close();\<close> with the stream never tested, as in lines
  28 to 30. Nothing here throws: the exception mask of a fresh stream is empty.
  \<^item> A stream that fails to open sets its fail bit, and the insertion and the close do
    nothing: the file system is as before.
  \<^item> A stream that opens creates the file, or truncates it. The insertion fills the
    buffer and the close flushes it; a write that fails sets the fail bit and leaves
    in the file the characters that got through, none of them at worst.
\<close>

definition ofstream_write :: "env \<Rightarrow> string \<Rightarrow> string \<Rightarrow> unit prog" where
  "ofstream_write e p c s =
     (if can_open e p
      then (Returned (), s\<lparr>files := (files s)(p := Present (take (flushed e p) c))\<rparr>)
      else (Returned (), s))"

subsection \<open>Constants\<close>

text \<open>resource.h: \<^verbatim>\<open>APP_VERSION\<close> is the four numbers joined by dots.\<close>

definition APP_MAJOR :: nat where "APP_MAJOR = 1"
definition APP_MINOR :: nat where "APP_MINOR = 0"
definition APP_BUILDNUMBER :: nat where "APP_BUILDNUMBER = 0"
definition APP_REVISION :: nat where "APP_REVISION = 0"

definition TO_STRING :: "nat \<Rightarrow> string" where
  "TO_STRING n = (if n = 0 then ''0'' else if n = 1 then ''1'' else ''?'')"

definition APP_VERSION :: string where
  "APP_VERSION =
     TO_STRING APP_MAJOR @ ''.'' @ TO_STRING APP_MINOR @ ''.''
     @ TO_STRING APP_BUILDNUMBER @ ''.'' @ TO_STRING APP_REVISION"

text \<open>\<^verbatim>\<open>std::string::resize(n)\<close>: cut to \<open>n\<close> characters, or pad with NUL.\<close>

definition resize :: "nat \<Rightarrow> string \<Rightarrow> string" where
  "resize n str = take n str @ replicate (n - length str) (CHR 0x00)"

definition backslash :: char where
  "backslash = CHR 0x5C"

definition dquote :: char where
  "dquote = CHR 0x22"

definition steam_appid_txt :: string where
  "steam_appid_txt = ''steam_appid.txt''"

definition bio4_exe :: string where
  "bio4_exe = ''bio4.exe''"

text \<open>The three paths of lines 43 to 45, from the canonical form of \<open>rootPath\<close>.\<close>

definition bio4Path :: "env \<Rightarrow> string \<Rightarrow> string" where
  "bio4Path e canon = parent_path e canon @ [backslash] @ ''BIO4'' @ [backslash]"

definition doorse012_xsb_path :: "env \<Rightarrow> string \<Rightarrow> string" where
  "doorse012_xsb_path e canon = bio4Path e canon @ ''snd'' @ [backslash] @ ''doorse012.xsb''"

definition doorse012_xwb_path :: "env \<Rightarrow> string \<Rightarrow> string" where
  "doorse012_xwb_path e canon = bio4Path e canon @ ''snd'' @ [backslash] @ ''doorse012.xwb''"

text \<open>\<^verbatim>\<open>DWORD fdwReason\<close> and the two values of winnt.h that the switch names.\<close>

definition DLL_PROCESS_ATTACH :: "32 word" where "DLL_PROCESS_ATTACH = 1"
definition DLL_PROCESS_DETACH :: "32 word" where "DLL_PROCESS_DETACH = 0"

subsection \<open>Init\_Main\<close>

text \<open>Lines 25 to 31, \<^verbatim>\<open>// Make sure steam_appid.txt exists\<close>.\<close>

definition make_sure_steam_appid :: "env \<Rightarrow> unit prog" where
  "make_sure_steam_appid e =
     seq (and_also (seq (fs_exists steam_appid_txt) (\<lambda>x. ret (\<not> x))) (fs_exists bio4_exe))
       (\<lambda>missing. if missing then ofstream_write e steam_appid_txt ''254700'' else ret ())"

text \<open>
  Lines 33 to 40, \<^verbatim>\<open>// Initial logging\<close>. In the first format string \<^verbatim>\<open>{1}\<close> is the
  commit and \<^verbatim>\<open>{0}\<close>, used twice, is \<^verbatim>\<open>APP_VERSION\<close>; the branch is passed and not
  printed.
\<close>

definition initial_logging :: "env \<Rightarrow> unit prog" where
  "initial_logging e =
     (let commit = resize 8 (GIT_CUR_COMMIT e) in
      seq (external e (Spd_info
             (''Starting re4_ap_mod v'' @ commit @ ''-'' @ APP_VERSION @ ''-'' @ APP_VERSION)))
        (\<lambda>_. seq (external e (Call LogProcessNameAndPID))
        (\<lambda>_. seq (external e (Spd_info
             (''Running from: '' @ [dquote] @ rootPath e @ [dquote])))
        (\<lambda>_. external e (Spd_info (''Game version: '' @ GameVersion e))))))"

text \<open>
  Lines 42 to 57, \<^verbatim>\<open>// Detected if the HD Project is being used\<close>. \<^verbatim>\<open>VERBOSE\<close> is
  defined in dllmain.h, so the console line is compiled in.
\<close>

definition detect_HDProject :: "env \<Rightarrow> unit prog" where
  "detect_HDProject e =
     (case canonical e (rootPath e) of
        None \<Rightarrow> throw
      | Some canon \<Rightarrow>
          seq (and_also (fs_exists (doorse012_xsb_path e canon))
                        (fs_exists (doorse012_xwb_path e canon)))
            (\<lambda>both. if both then
               seq (external e (Con_log ''RE4 HD Project detected''))
                 (\<lambda>_. seq (external e (Spd_info ''RE4 HD Project detected''))
                 (\<lambda>_. seq (\<lambda>s. (Returned (), s\<lparr>bIsUsingHDProject := True\<rparr>))
                 (\<lambda>_. external e (Call HDProject))))
             else ret ()))"

definition Init_Main :: "env \<Rightarrow> unit prog" where
  "Init_Main e =
     seq (external e (Con_log ''Big ironic thanks to QLOC S.A.''))
       (\<lambda>_. seq (external e (Call Game))
       (\<lambda>_. if \<not> returns e Game then ret ()
            else
              seq (make_sure_steam_appid e)
                (\<lambda>_. seq (initial_logging e)
                (\<lambda>_. seq (detect_HDProject e)
                (\<lambda>_. seq (external e (Call Input_init))
                (\<lambda>_. external e (Call ReadConnection)))))))"

subsection \<open>DllMain\<close>

definition DllMain :: "env \<Rightarrow> nat \<Rightarrow> 32 word \<Rightarrow> bool prog" where
  "DllMain e hModule fdwReason =
     (if fdwReason = DLL_PROCESS_ATTACH then
        seq (\<lambda>s. (Returned (), s\<lparr>g_module_handle := hModule\<rparr>))
          (\<lambda>_. seq (external e (Call Init_Wrappers))
          (\<lambda>_. seq (external e (Call ExceptionHandler))
          (\<lambda>_. seq (Init_Main e)
          (\<lambda>_. ret True))))
      else if fdwReason = DLL_PROCESS_DETACH then ret True
      else ret True)"

subsection \<open>What the artifact step and the probe see\<close>

text \<open>
  Summaries of the two places where \<^verbatim>\<open>Init_Main\<close> reads the file system, used to
  state the theorems; each is proved below to describe the step it names.
\<close>

definition is_present :: "fstatus \<Rightarrow> bool" where
  "is_present st = (case st of Present c \<Rightarrow> True | Absent \<Rightarrow> False | AccessError \<Rightarrow> False)"

text \<open>The condition of line 26 cannot be evaluated: one of its queries raises.\<close>

definition appid_fault :: "state \<Rightarrow> bool" where
  "appid_fault s =
     (files s steam_appid_txt = AccessError \<or>
      files s steam_appid_txt = Absent \<and> files s bio4_exe = AccessError)"

text \<open>
  The condition of line 26 holds and the stream opens; then what the file system holds
  after the step.
\<close>

definition appid_created :: "env \<Rightarrow> state \<Rightarrow> bool" where
  "appid_created e s =
     (files s steam_appid_txt = Absent \<and> is_present (files s bio4_exe)
      \<and> can_open e steam_appid_txt)"

definition appid_files :: "env \<Rightarrow> state \<Rightarrow> string \<Rightarrow> fstatus" where
  "appid_files e s =
     (if appid_created e s
      then (files s)(steam_appid_txt := Present (take (flushed e steam_appid_txt) ''254700''))
      else files s)"

text \<open>Both marker files of line 47 are there.\<close>

definition markers_present :: "env \<Rightarrow> (string \<Rightarrow> fstatus) \<Rightarrow> bool" where
  "markers_present e fs =
     (case canonical e (rootPath e) of
        None \<Rightarrow> False
      | Some canon \<Rightarrow>
          is_present (fs (doorse012_xsb_path e canon))
          \<and> is_present (fs (doorse012_xwb_path e canon)))"

text \<open>
  Lines 43 to 47 raise: \<^verbatim>\<open>canonical\<close> throws, or a query of a marker file that the
  short-circuit condition gets to evaluate does.
\<close>

definition probe_fault :: "env \<Rightarrow> (string \<Rightarrow> fstatus) \<Rightarrow> bool" where
  "probe_fault e fs =
     (case canonical e (rootPath e) of
        None \<Rightarrow> True
      | Some canon \<Rightarrow>
          (case fs (doorse012_xsb_path e canon) of
             AccessError \<Rightarrow> True
           | Absent \<Rightarrow> False
           | Present c \<Rightarrow> fs (doorse012_xwb_path e canon) = AccessError))"

subsection \<open>Sample runs\<close>

text \<open>
  A cooperative environment: nothing throws, every collaborator reports success, the
  install directory resolves to \<^verbatim>\<open>game\<close> in \<^verbatim>\<open>G:\<close>, and files can be created and
  written.
\<close>

definition env_ok :: env where
  "env_ok =
     \<lparr> throws = (\<lambda>ev. False), returns = (\<lambda>c. True), rootPath = ''game'',
       GameVersion = ''1.1.0'', GIT_CUR_COMMIT = ''0123456789abcdef'', GIT_BRANCH = ''main'',
       canonical = (\<lambda>p. Some p), parent_path = (\<lambda>p. ''G:''), can_open = (\<lambda>p. True),
       flushed = (\<lambda>p. 6) \<rparr>"

text \<open>Step 1 reports failure; the input bring-up reports failure; \<^verbatim>\<open>HDProject\<close> throws.\<close>

definition env_game_fails :: env where
  "env_game_fails = env_ok \<lparr> returns := (\<lambda>c. c \<noteq> Game) \<rparr>"

definition env_input_fails :: env where
  "env_input_fails = env_ok \<lparr> returns := (\<lambda>c. c \<noteq> Input_init) \<rparr>"

definition env_hd_throws :: env where
  "env_hd_throws = env_ok \<lparr> throws := (\<lambda>ev. ev = Call HDProject) \<rparr>"

text \<open>
  The soft steps fail without raising: the artifact cannot be created, and every
  collaborator but the version detection reports failure.
\<close>

definition env_soft_failures :: env where
  "env_soft_failures = env_ok \<lparr> returns := (\<lambda>c. c = Game), can_open := (\<lambda>p. False) \<rparr>"

text \<open>The stream opens and nothing of what is written reaches the file.\<close>

definition env_write_fails :: env where
  "env_write_fails = env_ok \<lparr> flushed := (\<lambda>p. 0) \<rparr>"

text \<open>
  A fresh process next to \<^verbatim>\<open>bio4.exe\<close>: without the HD project's files, with both of
  them, and with one of them only. The paths are spelled out; \<open>CHR 0x5C\<close> is the
  backslash.
\<close>

definition s_plain :: state where
  "s_plain =
     \<lparr> g_module_handle = 0, bIsUsingHDProject = False,
       files = (\<lambda>p. Absent)(''bio4.exe'' := Present ''MZ''), trace = [] \<rparr>"

definition s_xsb_only :: state where
  "s_xsb_only =
     s_plain \<lparr> files := (files s_plain)
       (''G:'' @ [CHR 0x5C] @ ''BIO4'' @ [CHR 0x5C] @ ''snd'' @ [CHR 0x5C] @ ''doorse012.xsb''
          := Present ''xsb'') \<rparr>"

definition s_xwb_only :: state where
  "s_xwb_only =
     s_plain \<lparr> files := (files s_plain)
       (''G:'' @ [CHR 0x5C] @ ''BIO4'' @ [CHR 0x5C] @ ''snd'' @ [CHR 0x5C] @ ''doorse012.xwb''
          := Present ''xwb'') \<rparr>"

definition s_hd :: state where
  "s_hd =
     s_plain \<lparr> files := (files s_plain)
       (''G:'' @ [CHR 0x5C] @ ''BIO4'' @ [CHR 0x5C] @ ''snd'' @ [CHR 0x5C] @ ''doorse012.xsb''
          := Present ''xsb'',
        ''G:'' @ [CHR 0x5C] @ ''BIO4'' @ [CHR 0x5C] @ ''snd'' @ [CHR 0x5C] @ ''doorse012.xwb''
          := Present ''xwb'') \<rparr>"

text \<open>Both marker files are there, and the status of the artifact cannot be queried.\<close>

definition s_hd_appid_error :: state where
  "s_hd_appid_error = s_hd \<lparr> files := (files s_hd) (''steam_appid.txt'' := AccessError) \<rparr>"

text \<open>The first marker file cannot be queried.\<close>

definition s_xsb_error :: state where
  "s_xsb_error =
     s_plain \<lparr> files := (files s_plain)
       (''G:'' @ [CHR 0x5C] @ ''BIO4'' @ [CHR 0x5C] @ ''snd'' @ [CHR 0x5C] @ ''doorse012.xsb''
          := AccessError) \<rparr>"

section \<open>Stepping through the sequence\<close>

text \<open>
  Rewrite rules that turn a sequence into the decision tree of its outcomes: one rule
  for each kind of statement, and one equation for the artifact step as a whole.
\<close>

lemma seq_ret: "seq (ret a) f = f a"
  by (rule ext) (simp add: seq_def ret_def)

lemma seq_throw: "seq throw f = throw"
  by (rule ext) (simp add: seq_def throw_def)

lemma seq_assoc: "seq (seq m f) g = seq m (\<lambda>a. seq (f a) g)"
  by (rule ext) (simp add: seq_def split: prod.splits result.splits)

lemma seq_if: "seq (if c then m else n) f = (if c then seq m f else seq n f)"
  by simp

lemma seq_external:
  "seq (external e ev) f s =
     (if throws e ev then (Thrown, s\<lparr>trace := trace s @ [ev]\<rparr>)
      else f () (s\<lparr>trace := trace s @ [ev]\<rparr>))"
  by (simp add: seq_def external_def)

lemma seq_fs_exists:
  "seq (fs_exists p) f s =
     (case files s p of
        Absent \<Rightarrow> f False s
      | Present c \<Rightarrow> f True s
      | AccessError \<Rightarrow> (Thrown, s))"
  by (simp add: seq_def fs_exists_def split: fstatus.splits)

lemma seq_assign: "seq (\<lambda>s. (Returned a, g s)) f s = f a (g s)"
  by (simp add: seq_def)

lemma make_sure_steam_appid_unfold:
  "make_sure_steam_appid e s =
     (case files s steam_appid_txt of
        Present c \<Rightarrow> (Returned (), s)
      | AccessError \<Rightarrow> (Thrown, s)
      | Absent \<Rightarrow>
          (case files s bio4_exe of
             Absent \<Rightarrow> (Returned (), s)
           | AccessError \<Rightarrow> (Thrown, s)
           | Present c \<Rightarrow>
               if can_open e steam_appid_txt
               then (Returned (),
                     s\<lparr>files := (files s)
                         (steam_appid_txt := Present (take (flushed e steam_appid_txt) ''254700''))\<rparr>)
               else (Returned (), s)))"
  by (simp add: make_sure_steam_appid_def and_also_def seq_assoc seq_fs_exists seq_ret
        ofstream_write_def ret_def split: fstatus.splits)

lemma make_sure_steam_appid_eq:
  "make_sure_steam_appid e s =
     (if appid_fault s then (Thrown, s) else (Returned (), s\<lparr>files := appid_files e s\<rparr>))"
  unfolding make_sure_steam_appid_unfold appid_fault_def appid_files_def appid_created_def
    is_present_def
  by (cases "files s steam_appid_txt"; cases "files s bio4_exe"; simp)

lemma seq_make_sure:
  "seq (make_sure_steam_appid e) f s =
     (if appid_fault s then (Thrown, s) else f () (s\<lparr>files := appid_files e s\<rparr>))"
  by (simp add: seq_def make_sure_steam_appid_eq)

lemma xsb_neq_appid: "doorse012_xsb_path e c \<noteq> steam_appid_txt"
proof
  assume "doorse012_xsb_path e c = steam_appid_txt"
  then have "last (doorse012_xsb_path e c) = last steam_appid_txt" by simp
  then show False by (simp add: doorse012_xsb_path_def steam_appid_txt_def)
qed

lemma xwb_neq_appid: "doorse012_xwb_path e c \<noteq> steam_appid_txt"
proof
  assume "doorse012_xwb_path e c = steam_appid_txt"
  then have "last (doorse012_xwb_path e c) = last steam_appid_txt" by simp
  then show False by (simp add: doorse012_xwb_path_def steam_appid_txt_def)
qed

lemma appid_files_other: "p \<noteq> steam_appid_txt \<Longrightarrow> appid_files e s p = files s p"
  by (simp add: appid_files_def)

lemma appid_files_trace: "appid_files e (s\<lparr>trace := t\<rparr>) = appid_files e s"
  by (auto simp: appid_files_def appid_created_def)

lemma appid_fault_trace: "appid_fault (s\<lparr>trace := t\<rparr>) = appid_fault s"
  by (simp add: appid_fault_def)

lemma appid_files_handle: "appid_files e (s\<lparr>g_module_handle := t\<rparr>) = appid_files e s"
  by (auto simp: appid_files_def appid_created_def)

lemma appid_fault_handle: "appid_fault (s\<lparr>g_module_handle := t\<rparr>) = appid_fault s"
  by (simp add: appid_fault_def)

lemma markers_present_appid_files:
  "markers_present e (appid_files e' s) = markers_present e (files s)"
  by (simp add: markers_present_def appid_files_other xsb_neq_appid xwb_neq_appid
        split: option.splits)

lemma probe_fault_appid_files:
  "probe_fault e (appid_files e' s) = probe_fault e (files s)"
  by (simp add: probe_fault_def appid_files_other xsb_neq_appid xwb_neq_appid
        split: option.splits fstatus.splits)

text \<open>The probe and the activation as one decision tree.\<close>

lemma detect_HDProject_unfold:
  "detect_HDProject e s =
     (if probe_fault e (files s) then (Thrown, s)
      else if \<not> markers_present e (files s) then (Returned (), s)
      else if throws e (Con_log ''RE4 HD Project detected'')
      then (Thrown, s\<lparr>trace := trace s @ [Con_log ''RE4 HD Project detected'']\<rparr>)
      else if throws e (Spd_info ''RE4 HD Project detected'')
      then (Thrown, s\<lparr>trace := trace s @ [Con_log ''RE4 HD Project detected'',
                                             Spd_info ''RE4 HD Project detected'']\<rparr>)
      else (if throws e (Call HDProject) then Thrown else Returned (),
            s\<lparr>bIsUsingHDProject := True,
              trace := trace s @ [Con_log ''RE4 HD Project detected'',
                                  Spd_info ''RE4 HD Project detected'', Call HDProject]\<rparr>))"
  by (simp add: detect_HDProject_def seq_external seq_fs_exists seq_ret seq_throw seq_assoc
        seq_if seq_assign external_def ret_def throw_def and_also_def
        probe_fault_def markers_present_def is_present_def
        split: option.splits fstatus.splits)

lemma seq_detect_HDProject:
  "seq (detect_HDProject e) f s =
     (if probe_fault e (files s) then (Thrown, s)
      else if \<not> markers_present e (files s) then f () s
      else if throws e (Con_log ''RE4 HD Project detected'')
      then (Thrown, s\<lparr>trace := trace s @ [Con_log ''RE4 HD Project detected'']\<rparr>)
      else if throws e (Spd_info ''RE4 HD Project detected'')
      then (Thrown, s\<lparr>trace := trace s @ [Con_log ''RE4 HD Project detected'',
                                             Spd_info ''RE4 HD Project detected'']\<rparr>)
      else if throws e (Call HDProject)
      then (Thrown, s\<lparr>bIsUsingHDProject := True,
              trace := trace s @ [Con_log ''RE4 HD Project detected'',
                                  Spd_info ''RE4 HD Project detected'', Call HDProject]\<rparr>)
      else f () (s\<lparr>bIsUsingHDProject := True,
              trace := trace s @ [Con_log ''RE4 HD Project detected'',
                                  Spd_info ''RE4 HD Project detected'', Call HDProject]\<rparr>))"
  by (simp add: seq_def detect_HDProject_unfold)

lemmas steps = seq_external seq_ret seq_throw seq_assoc seq_if seq_assign
  seq_make_sure seq_detect_HDProject markers_present_appid_files probe_fault_appid_files
  appid_files_trace appid_fault_trace appid_files_handle appid_fault_handle
  external_def ret_def throw_def Let_def

lemmas prog_defs = DllMain_def Init_Main_def initial_logging_def

lemmas sample_defs = env_ok_def env_game_fails_def env_input_fails_def env_hd_throws_def
  env_soft_failures_def env_write_fails_def
  s_plain_def s_xsb_only_def s_xwb_only_def s_hd_def s_hd_appid_error_def s_xsb_error_def

lemmas eval_defs = DllMain_def Init_Main_def initial_logging_def detect_HDProject_def
  make_sure_steam_appid_def and_also_def seq_def external_def fs_exists_def ofstream_write_def
  ret_def throw_def Let_def DLL_PROCESS_ATTACH_def DLL_PROCESS_DETACH_def
  bio4Path_def doorse012_xsb_path_def doorse012_xwb_path_def backslash_def dquote_def
  steam_appid_txt_def bio4_exe_def resize_def APP_VERSION_def TO_STRING_def APP_MAJOR_def
  APP_MINOR_def APP_BUILDNUMBER_def APP_REVISION_def is_present_def markers_present_def
  probe_fault_def appid_fault_def appid_created_def appid_files_def



lemma DllMain_files:
  "DllMain e h r s = (res, s') \<Longrightarrow> files s' = files s \<or> files s' = appid_files e s"
  by (auto simp: prog_defs steps split: if_splits)


lemma Init_Main_events:
  "\<exists>evs. trace (snd (Init_Main e s)) = trace s @ evs \<and>
         Call Init_Wrappers \<notin> set evs \<and> Call ExceptionHandler \<notin> set evs"
  by (simp add: Init_Main_def initial_logging_def steps)

lemma DllMain_attach_unfold:
  "DllMain e h DLL_PROCESS_ATTACH s =
     (if throws e (Call Init_Wrappers)
      then (Thrown, s\<lparr>g_module_handle := h, trace := trace s @ [Call Init_Wrappers]\<rparr>)
      else if throws e (Call ExceptionHandler)
      then (Thrown, s\<lparr>g_module_handle := h,
                      trace := trace s @ [Call Init_Wrappers, Call ExceptionHandler]\<rparr>)
      else (case Init_Main e (s\<lparr>g_module_handle := h,
                      trace := trace s @ [Call Init_Wrappers, Call ExceptionHandler]\<rparr>) of
              (Thrown, s') \<Rightarrow> (Thrown, s')
            | (Returned u, s') \<Rightarrow> (Returned True, s')))"
  by (simp add: DllMain_def seq_external seq_assign)
     (simp add: seq_def ret_def split: prod.splits result.splits)

lemma DllMain_files_cases:
  "files (snd (DllMain e h r s)) = files s \<or>
   appid_created e s \<and>
   files (snd (DllMain e h r s)) =
     (files s)(steam_appid_txt := Present (take (flushed e steam_appid_txt) ''254700''))"
proof -
  have "files (snd (DllMain e h r s)) = files s \<or>
        files (snd (DllMain e h r s)) = appid_files e s"
    by (rule DllMain_files [of e h r s "fst (DllMain e h r s)"]) simp
  then show ?thesis
    by (cases "appid_created e s") (auto simp: appid_files_def)
qed

lemma make_sure_steam_appid_present:
  "is_present (files s steam_appid_txt) \<Longrightarrow> make_sure_steam_appid e s = (Returned (), s)"
  by (simp add: make_sure_steam_appid_unfold is_present_def split: fstatus.splits)




lemma DllMain_creates_steam_appid:
  assumes "returns e Game" and "\<not> throws e (Call Init_Wrappers)"
    and "\<not> throws e (Call ExceptionHandler)"
    and "\<not> throws e (Con_log ''Big ironic thanks to QLOC S.A.'')" and "\<not> throws e (Call Game)"
    and "appid_created e s"
  shows "files (snd (DllMain e h DLL_PROCESS_ATTACH s)) =
           (files s)(steam_appid_txt := Present (take (flushed e steam_appid_txt) ''254700''))"
proof -
  from assms(6) have nf: "\<not> appid_fault s"
    by (auto simp: appid_created_def appid_fault_def is_present_def)
  from assms(6) have af: "appid_files e s =
      (files s)(steam_appid_txt := Present (take (flushed e steam_appid_txt) ''254700''))"
    by (simp add: appid_files_def)
  show ?thesis
    using assms(1-5) nf by (simp add: prog_defs steps af)
qed

section \<open>Repeated attach notifications\<close>




section \<open>Input bring-up and configuration load\<close>




section \<open>Failure of the version detection\<close>

text \<open>
  C3 (as the specification states it): when step 1, \<^verbatim>\<open>re4t::init::Game()\<close>, fails, none
  of the later steps runs (no file is created, nothing more is logged, no variant
  activation, no input or configuration call) and the final state is Failed. The first
  half holds; the second does not: the entry point reports the same \<^verbatim>\<open>true\<close> it reports
  after a complete sequence.
\<close>

theorem Game_failure_counterexample:
  "\<not> returns env_game_fails Game \<and>
   fst (DllMain env_game_fails 1 DLL_PROCESS_ATTACH s_hd) = Returned True"
  by (simp add: eval_defs sample_defs)

text \<open>
  C3 (amended): when \<^verbatim>\<open>re4t::init::Game()\<close> returns false or throws, the attach makes no
  call after it: the calls are an initial part of \<^verbatim>\<open>Init_Wrappers\<close>,
  \<^verbatim>\<open>ExceptionHandler\<close>, the console greeting and \<^verbatim>\<open>Game\<close>; the files and the HD project
  flag are as before. \<^verbatim>\<open>DllMain\<close> then returns true, unless one of those four calls threw.
\<close>

theorem Game_failure_skips_the_rest:
  assumes "DllMain e h DLL_PROCESS_ATTACH s = (res, s')" and "trace s' = trace s @ evs"
    and "\<not> returns e Game \<or> throws e (Call Game)"
  shows "files s' = files s \<and> bIsUsingHDProject s' = bIsUsingHDProject s \<and>
         evs = take (length evs)
                 [Call Init_Wrappers, Call ExceptionHandler,
                  Con_log ''Big ironic thanks to QLOC S.A.'', Call Game] \<and>
         (res = Thrown \<or> res = Returned True \<and> length evs = 4) \<and>
         (\<not> throws e (Call Init_Wrappers) \<and> \<not> throws e (Call ExceptionHandler) \<and>
          \<not> throws e (Con_log ''Big ironic thanks to QLOC S.A.'') \<and> \<not> throws e (Call Game) \<longrightarrow>
            res = Returned True)"
  using assms
  by (auto simp: prog_defs steps split: if_splits)

theorem Game_failure_skips_the_rest_witness:
  "\<not> returns env_game_fails Game \<and>
   files (snd (DllMain env_game_fails 1 DLL_PROCESS_ATTACH s_hd)) = files s_hd \<and>
   bIsUsingHDProject (snd (DllMain env_game_fails 1 DLL_PROCESS_ATTACH s_hd)) = bIsUsingHDProject s_hd \<and>
   trace (snd (DllMain env_game_fails 1 DLL_PROCESS_ATTACH s_hd)) =
     [Call Init_Wrappers, Call ExceptionHandler,
      Con_log ''Big ironic thanks to QLOC S.A.'', Call Game]"
proof -
  have run: "DllMain env_game_fails 1 DLL_PROCESS_ATTACH s_hd =
        (fst (DllMain env_game_fails 1 DLL_PROCESS_ATTACH s_hd),
         snd (DllMain env_game_fails 1 DLL_PROCESS_ATTACH s_hd))"
    by simp
  have tr: "trace (snd (DllMain env_game_fails 1 DLL_PROCESS_ATTACH s_hd)) =
        trace s_hd @ trace (snd (DllMain env_game_fails 1 DLL_PROCESS_ATTACH s_hd))"
    by (simp add: s_hd_def s_plain_def)
  have g: "\<not> returns env_game_fails Game \<or> throws env_game_fails (Call Game)"
    by (simp add: env_game_fails_def)
  have len: "trace (snd (DllMain env_game_fails 1 DLL_PROCESS_ATTACH s_hd)) =
     [Call Init_Wrappers, Call ExceptionHandler,
      Con_log ''Big ironic thanks to QLOC S.A.'', Call Game]"
    by (simp add: eval_defs sample_defs)
  have ng: "\<not> returns env_game_fails Game"
    by (simp add: env_game_fails_def)
  from Game_failure_skips_the_rest [OF run tr g] ng len show ?thesis by simp
qed

section \<open>Where the exception handler is installed\<close>

text \<open>
  C7 (as the specification states it): on attach the fault containment is installed
  before anything else runs. In the source \<^verbatim>\<open>Init_Wrappers()\<close> runs first, and
  \<^verbatim>\<open>re4t::init::ExceptionHandler()\<close> second.
\<close>

theorem ExceptionHandler_not_first_counterexample:
  "take 2 (trace (snd (DllMain env_ok 1 DLL_PROCESS_ATTACH s_plain))) =
     [Call Init_Wrappers, Call ExceptionHandler]"
  by (simp add: eval_defs sample_defs)

text \<open>
  C7 (amended): \<^verbatim>\<open>ExceptionHandler\<close> is called directly after \<^verbatim>\<open>Init_Wrappers\<close> has
  returned, neither is called again, and the whole of \<^verbatim>\<open>Init_Main\<close> (the version
  detection, the artifact, the logging, the probe, input and configuration) starts from
  the state in which both calls have been made. When \<^verbatim>\<open>Init_Wrappers\<close> throws, the
  handler is never installed.
\<close>

theorem ExceptionHandler_precedes_Init_Main:
  assumes run: "DllMain e h DLL_PROCESS_ATTACH s = (res, s')" and tr: "trace s' = trace s @ evs"
  shows "((evs = [Call Init_Wrappers] \<and> res = Thrown \<and> throws e (Call Init_Wrappers)) \<or>
          (\<exists>rest. evs = Call Init_Wrappers # Call ExceptionHandler # rest \<and>
             Call Init_Wrappers \<notin> set rest \<and> Call ExceptionHandler \<notin> set rest \<and>
             (if throws e (Call ExceptionHandler) then rest = [] \<and> res = Thrown
              else s' = snd (Init_Main e
                     (s\<lparr>g_module_handle := h,
                        trace := trace s @ [Call Init_Wrappers, Call ExceptionHandler]\<rparr>))))) \<and>
         (throws e (Call Init_Wrappers) \<longrightarrow> Call ExceptionHandler \<notin> set evs)"
proof -
  have order: "(evs = [Call Init_Wrappers] \<and> res = Thrown \<and> throws e (Call Init_Wrappers)) \<or>
          (\<exists>rest. evs = Call Init_Wrappers # Call ExceptionHandler # rest \<and>
             Call Init_Wrappers \<notin> set rest \<and> Call ExceptionHandler \<notin> set rest \<and>
             (if throws e (Call ExceptionHandler) then rest = [] \<and> res = Thrown
              else s' = snd (Init_Main e
                     (s\<lparr>g_module_handle := h,
                        trace := trace s @ [Call Init_Wrappers, Call ExceptionHandler]\<rparr>))))"
  proof (cases "throws e (Call Init_Wrappers)")
    case True
    with run tr show ?thesis by (auto simp: DllMain_attach_unfold)
  next
    case noIW: False
    show ?thesis
    proof (cases "throws e (Call ExceptionHandler)")
      case True
      with noIW run tr show ?thesis by (auto simp: DllMain_attach_unfold)
    next
      case noEH: False
      let ?s2 = "s\<lparr>g_module_handle := h,
                    trace := trace s @ [Call Init_Wrappers, Call ExceptionHandler]\<rparr>"
      from noIW noEH run have s': "s' = snd (Init_Main e ?s2)"
        by (auto simp: DllMain_attach_unfold split: prod.splits result.splits)
      obtain rest where rest: "trace (snd (Init_Main e ?s2)) = trace ?s2 @ rest"
        "Call Init_Wrappers \<notin> set rest" "Call ExceptionHandler \<notin> set rest"
        using Init_Main_events [of e ?s2] by blast
      from rest(1) s' tr have "evs = Call Init_Wrappers # Call ExceptionHandler # rest"
        by simp
      with rest(2,3) s' noIW noEH show ?thesis by simp
    qed
  qed
  have never: "Call ExceptionHandler \<notin> set evs" if "throws e (Call Init_Wrappers)"
    using run tr that by (auto simp: DllMain_attach_unfold)
  from order never show ?thesis by blast
qed

theorem ExceptionHandler_precedes_Init_Main_witness:
  "trace (snd (DllMain env_ok 1 DLL_PROCESS_ATTACH s_plain)) \<noteq> [Call Init_Wrappers] \<and>
   (\<exists>rest. trace (snd (DllMain env_ok 1 DLL_PROCESS_ATTACH s_plain)) =
             Call Init_Wrappers # Call ExceptionHandler # rest \<and>
           Call Init_Wrappers \<notin> set rest \<and> Call ExceptionHandler \<notin> set rest)"
proof -
  have run: "DllMain env_ok 1 DLL_PROCESS_ATTACH s_plain =
        (fst (DllMain env_ok 1 DLL_PROCESS_ATTACH s_plain),
         snd (DllMain env_ok 1 DLL_PROCESS_ATTACH s_plain))"
    by simp
  have tr: "trace (snd (DllMain env_ok 1 DLL_PROCESS_ATTACH s_plain)) =
        trace s_plain @ trace (snd (DllMain env_ok 1 DLL_PROCESS_ATTACH s_plain))"
    by (simp add: s_plain_def)
  have ne: "\<not> throws env_ok (Call Init_Wrappers)"
    by (simp add: env_ok_def)
  from ExceptionHandler_precedes_Init_Main [OF run tr] ne show ?thesis by auto
qed

section \<open>What the entry point returns\<close>

text \<open>
  C8 (as the specification states it): the entry point's result is Ready exactly when no
  fatal step failed and Failed otherwise, so that the caller can tell the two apart. The
  result of \<^verbatim>\<open>DllMain\<close> is the same whether the version detection failed or not.
\<close>

theorem DllMain_result_counterexample:
  "\<not> returns env_game_fails Game \<and> returns env_ok Game \<and>
   fst (DllMain env_game_fails 1 DLL_PROCESS_ATTACH s_plain) =
   fst (DllMain env_ok 1 DLL_PROCESS_ATTACH s_plain)"
  by (simp add: eval_defs sample_defs)

text \<open>
  C8 (amended): whenever \<^verbatim>\<open>DllMain\<close> returns, for whatever reason it was called and
  whatever the steps did, it returns true; the only other way out is an exception.
\<close>

theorem DllMain_returns_true:
  "fst (DllMain e h r s) = Returned True \<or> fst (DllMain e h r s) = Thrown"
  by (simp add: DllMain_def seq_def ret_def external_def split: prod.splits result.splits)


section \<open>The artifact \<open>steam_appid.txt\<close>\<close>

text \<open>
  C6 (as the specification states it): provisioning of the artifact is idempotent. A file
  that is already at the path is left untouched and no error is raised; otherwise it is
  created with the fixed content, only when \<^verbatim>\<open>bio4.exe\<close> is present; and a second attach
  never alters the artifact after its first creation. The stream of lines 28 to 30 is
  never tested: when it opens and the write does not get through, the artifact is
  created empty, and because it then exists no later attach repairs it.
\<close>

theorem artifact_write_failure_counterexample:
  "files s_plain ''steam_appid.txt'' = Absent \<and>
   files s_plain ''bio4.exe'' = Present ''MZ'' \<and>
   files (snd (DllMain env_write_fails 1 DLL_PROCESS_ATTACH s_plain)) ''steam_appid.txt''
     = Present '''' \<and>
   files (snd (DllMain env_ok 1 DLL_PROCESS_ATTACH
                 (snd (DllMain env_write_fails 1 DLL_PROCESS_ATTACH s_plain)))) ''steam_appid.txt''
     = Present ''''"
  by (simp add: eval_defs sample_defs)

text \<open>
  C6 (amended): a file that is already at \<^verbatim>\<open>steam_appid.txt\<close> is left as it is and the step
  raises no error (it returns without doing anything, and the whole run leaves every file
  alone). A file that is not there is created only when \<^verbatim>\<open>bio4.exe\<close> is present and the
  stream opens, and it is created whenever, in addition, the run gets to line 26 (the
  version detection succeeded and no call before it threw). What it then holds is the
  part of \<^verbatim>\<open>254700\<close> that the write got through: all six characters when the write
  succeeds, fewer and possibly none when it fails. Once a file is there, whatever it
  holds, a second attach on the files the first one left, from any environment, changes
  nothing.
\<close>

theorem steam_appid_provisioning_idempotent:
  assumes first: "DllMain e1 h1 r1 s = (res1, s1)"
    and second: "DllMain e2 h2 r2 s1 = (res2, s2)"
  shows "(is_present (files s ''steam_appid.txt'') \<longrightarrow>
            make_sure_steam_appid e1 s = (Returned (), s) \<and> files s1 = files s) \<and>
         (files s ''steam_appid.txt'' = Absent \<longrightarrow>
            files s1 = files s \<or>
            is_present (files s ''bio4.exe'') \<and> can_open e1 ''steam_appid.txt'' \<and>
            files s1 = (files s)(''steam_appid.txt'' :=
                          Present (take (flushed e1 ''steam_appid.txt'') ''254700''))) \<and>
         (r1 = DLL_PROCESS_ATTACH \<and> returns e1 Game \<and>
          \<not> throws e1 (Call Init_Wrappers) \<and> \<not> throws e1 (Call ExceptionHandler) \<and>
          \<not> throws e1 (Con_log ''Big ironic thanks to QLOC S.A.'') \<and> \<not> throws e1 (Call Game) \<and>
          files s ''steam_appid.txt'' = Absent \<and> is_present (files s ''bio4.exe'') \<and>
          can_open e1 ''steam_appid.txt'' \<longrightarrow>
            files s1 = (files s)(''steam_appid.txt'' :=
                          Present (take (flushed e1 ''steam_appid.txt'') ''254700'')) \<and>
            (6 \<le> flushed e1 ''steam_appid.txt'' \<longrightarrow>
               files s1 ''steam_appid.txt'' = Present ''254700'')) \<and>
         (is_present (files s1 ''steam_appid.txt'') \<longrightarrow> files s2 = files s1)"
proof -
  note lit = steam_appid_txt_def [symmetric] bio4_exe_def [symmetric]
  have a: "make_sure_steam_appid e1 s = (Returned (), s) \<and> files s1 = files s"
    if p: "is_present (files s steam_appid_txt)"
  proof -
    from p have "\<not> appid_created e1 s"
      by (auto simp: appid_created_def is_present_def)
    with DllMain_files_cases [of e1 h1 r1 s] first have "files s1 = files s"
      by simp
    with make_sure_steam_appid_present [OF p] show ?thesis by simp
  qed
  have b: "files s1 = files s \<or>
            is_present (files s bio4_exe) \<and> can_open e1 steam_appid_txt \<and>
            files s1 = (files s)(steam_appid_txt :=
                          Present (take (flushed e1 steam_appid_txt) ''254700''))"
    using DllMain_files_cases [of e1 h1 r1 s] first by (auto simp: appid_created_def)
  have c: "files s1 = (files s)(steam_appid_txt :=
                          Present (take (flushed e1 steam_appid_txt) ''254700'')) \<and>
            (6 \<le> flushed e1 steam_appid_txt \<longrightarrow> files s1 steam_appid_txt = Present ''254700'')"
    if "r1 = DLL_PROCESS_ATTACH \<and> returns e1 Game \<and>
          \<not> throws e1 (Call Init_Wrappers) \<and> \<not> throws e1 (Call ExceptionHandler) \<and>
          \<not> throws e1 (Con_log ''Big ironic thanks to QLOC S.A.'') \<and> \<not> throws e1 (Call Game) \<and>
          files s steam_appid_txt = Absent \<and> is_present (files s bio4_exe) \<and>
          can_open e1 steam_appid_txt"
  proof -
    from that have cr: "appid_created e1 s" by (simp add: appid_created_def)
    from that have "files (snd (DllMain e1 h1 r1 s)) =
        (files s)(steam_appid_txt := Present (take (flushed e1 steam_appid_txt) ''254700''))"
      using DllMain_creates_steam_appid [OF _ _ _ _ _ cr, of h1] by simp
    with first show ?thesis by simp
  qed
  have d: "files s2 = files s1" if p: "is_present (files s1 steam_appid_txt)"
  proof -
    from p have "\<not> appid_created e2 s1"
      by (auto simp: appid_created_def is_present_def)
    with DllMain_files_cases [of e2 h2 r2 s1] second show ?thesis
      by simp
  qed
  from a b c d show ?thesis
    unfolding lit by blast
qed

theorem steam_appid_provisioning_idempotent_witness:
  "files s_plain ''steam_appid.txt'' = Absent \<and> is_present (files s_plain ''bio4.exe'') \<and>
   can_open env_ok ''steam_appid.txt'' \<and> 6 \<le> flushed env_ok ''steam_appid.txt'' \<and>
   files (snd (DllMain env_ok 1 DLL_PROCESS_ATTACH s_plain)) ''steam_appid.txt'' = Present ''254700'' \<and>
   files (snd (DllMain env_write_fails 2 DLL_PROCESS_ATTACH
                 (snd (DllMain env_ok 1 DLL_PROCESS_ATTACH s_plain))))
     = files (snd (DllMain env_ok 1 DLL_PROCESS_ATTACH s_plain))"
proof -
  have pre: "files s_plain ''steam_appid.txt'' = Absent" "is_present (files s_plain ''bio4.exe'')"
    "can_open env_ok ''steam_appid.txt''" "6 \<le> flushed env_ok ''steam_appid.txt''"
    "returns env_ok Game" "\<not> throws env_ok (Call Init_Wrappers)"
    "\<not> throws env_ok (Call ExceptionHandler)"
    "\<not> throws env_ok (Con_log ''Big ironic thanks to QLOC S.A.'')"
    "\<not> throws env_ok (Call Game)"
    by (simp_all add: env_ok_def s_plain_def is_present_def)
  have r1: "DllMain env_ok 1 DLL_PROCESS_ATTACH s_plain =
      (fst (DllMain env_ok 1 DLL_PROCESS_ATTACH s_plain),
       snd (DllMain env_ok 1 DLL_PROCESS_ATTACH s_plain))"
    by simp
  have r2: "DllMain env_write_fails 2 DLL_PROCESS_ATTACH
              (snd (DllMain env_ok 1 DLL_PROCESS_ATTACH s_plain)) =
      (fst (DllMain env_write_fails 2 DLL_PROCESS_ATTACH
              (snd (DllMain env_ok 1 DLL_PROCESS_ATTACH s_plain))),
       snd (DllMain env_write_fails 2 DLL_PROCESS_ATTACH
              (snd (DllMain env_ok 1 DLL_PROCESS_ATTACH s_plain))))"
    by simp
  note inst = steam_appid_provisioning_idempotent [OF r1 r2]
  from inst pre have created:
    "files (snd (DllMain env_ok 1 DLL_PROCESS_ATTACH s_plain)) ''steam_appid.txt'' = Present ''254700''"
    by blast
  then have "is_present (files (snd (DllMain env_ok 1 DLL_PROCESS_ATTACH s_plain)) ''steam_appid.txt'')"
    by (simp add: is_present_def)
  with inst have "files (snd (DllMain env_write_fails 2 DLL_PROCESS_ATTACH
                 (snd (DllMain env_ok 1 DLL_PROCESS_ATTACH s_plain))))
     = files (snd (DllMain env_ok 1 DLL_PROCESS_ATTACH s_plain))"
    by blast
  with created pre(1-4) show ?thesis by simp
qed

text \<open>
  C10 (as the specification states it): whenever the attach creates the artifact, its
  content is exactly \<^verbatim>\<open>254700\<close>, and two runs that both create it produce the same
  content. Two runs from the same state that make the same calls, one with a write that
  goes through and one with a write that fails, both create the artifact, the first with
  \<^verbatim>\<open>254700\<close> and the second empty.
\<close>

theorem artifact_content_counterexample:
  "files s_hd ''steam_appid.txt'' = Absent \<and>
   files (snd (DllMain env_ok 1 DLL_PROCESS_ATTACH s_hd)) ''steam_appid.txt'' = Present ''254700'' \<and>
   files (snd (DllMain env_write_fails 1 DLL_PROCESS_ATTACH s_hd)) ''steam_appid.txt'' = Present '''' \<and>
   trace (snd (DllMain env_write_fails 1 DLL_PROCESS_ATTACH s_hd)) =
   trace (snd (DllMain env_ok 1 DLL_PROCESS_ATTACH s_hd))"
  by (simp add: eval_defs sample_defs)

text \<open>
  C10 (amended): whenever a run changes what is at \<^verbatim>\<open>steam_appid.txt\<close>, nothing was there
  before, and the content afterwards is the part of \<^verbatim>\<open>254700\<close> that the write got
  through. It depends on nothing else: not on the game version, the flag, the handle,
  the trace, the other files or the collaborators. When the write goes through (six
  characters or more reach the file) the content is exactly \<^verbatim>\<open>254700\<close>, and two such runs
  create the same content.
\<close>

theorem steam_appid_content_fixed:
  assumes "DllMain e1 h1 r1 s1 = (res1, s1')" and "DllMain e2 h2 r2 s2 = (res2, s2')"
    and "files s1' ''steam_appid.txt'' \<noteq> files s1 ''steam_appid.txt''"
    and "files s2' ''steam_appid.txt'' \<noteq> files s2 ''steam_appid.txt''"
  shows "files s1 ''steam_appid.txt'' = Absent \<and>
         files s1' ''steam_appid.txt'' = Present (take (flushed e1 ''steam_appid.txt'') ''254700'') \<and>
         files s2' ''steam_appid.txt'' = Present (take (flushed e2 ''steam_appid.txt'') ''254700'') \<and>
         (6 \<le> flushed e1 ''steam_appid.txt'' \<and> 6 \<le> flushed e2 ''steam_appid.txt'' \<longrightarrow>
            files s1' ''steam_appid.txt'' = Present ''254700'' \<and>
            files s2' ''steam_appid.txt'' = files s1' ''steam_appid.txt'')"
  using assms DllMain_files_cases [of e1 h1 r1 s1] DllMain_files_cases [of e2 h2 r2 s2]
  unfolding steam_appid_txt_def [symmetric]
  by (auto simp: appid_created_def)

theorem steam_appid_content_fixed_witness:
  "files (snd (DllMain env_ok 1 DLL_PROCESS_ATTACH s_plain)) ''steam_appid.txt''
     \<noteq> files s_plain ''steam_appid.txt'' \<and>
   files (snd (DllMain env_hd_throws 7 DLL_PROCESS_ATTACH s_hd)) ''steam_appid.txt''
     \<noteq> files s_hd ''steam_appid.txt'' \<and>
   6 \<le> flushed env_ok ''steam_appid.txt'' \<and> 6 \<le> flushed env_hd_throws ''steam_appid.txt'' \<and>
   files (snd (DllMain env_ok 1 DLL_PROCESS_ATTACH s_plain)) ''steam_appid.txt'' = Present ''254700'' \<and>
   files (snd (DllMain env_hd_throws 7 DLL_PROCESS_ATTACH s_hd)) ''steam_appid.txt''
     = files (snd (DllMain env_ok 1 DLL_PROCESS_ATTACH s_plain)) ''steam_appid.txt''"
proof -
  have a: "files (snd (DllMain env_ok 1 DLL_PROCESS_ATTACH s_plain)) ''steam_appid.txt''
     \<noteq> files s_plain ''steam_appid.txt''"
    by (simp add: eval_defs sample_defs)
  have b: "files (snd (DllMain env_hd_throws 7 DLL_PROCESS_ATTACH s_hd)) ''steam_appid.txt''
     \<noteq> files s_hd ''steam_appid.txt''"
    by (simp add: eval_defs sample_defs)
  have f: "6 \<le> flushed env_ok ''steam_appid.txt''" "6 \<le> flushed env_hd_throws ''steam_appid.txt''"
    by (simp_all add: env_ok_def env_hd_throws_def)
  have r1: "DllMain env_ok 1 DLL_PROCESS_ATTACH s_plain =
      (fst (DllMain env_ok 1 DLL_PROCESS_ATTACH s_plain),
       snd (DllMain env_ok 1 DLL_PROCESS_ATTACH s_plain))"
    by simp
  have r2: "DllMain env_hd_throws 7 DLL_PROCESS_ATTACH s_hd =
      (fst (DllMain env_hd_throws 7 DLL_PROCESS_ATTACH s_hd),
       snd (DllMain env_hd_throws 7 DLL_PROCESS_ATTACH s_hd))"
    by simp
  from steam_appid_content_fixed [OF r1 r2 a b] a b f show ?thesis by blast
qed

section \<open>The HD project probe\<close>




text \<open>
  C5 (as the specification states it): the probe never fails; a file system error while
  probing gives the flag false and nothing is escalated. The source calls the throwing
  overloads of \<^verbatim>\<open>canonical\<close> and \<^verbatim>\<open>exists\<close> and catches nothing: with the first marker
  file unreadable, the exception leaves \<^verbatim>\<open>DllMain\<close> and the input bring-up never runs.
\<close>

theorem probe_fault_counterexample:
  "probe_fault env_ok (files s_xsb_error) \<and>
   fst (DllMain env_ok 1 DLL_PROCESS_ATTACH s_xsb_error) = Thrown \<and>
   Call Input_init \<notin> set (trace (snd (DllMain env_ok 1 DLL_PROCESS_ATTACH s_xsb_error)))"
  by (simp add: eval_defs sample_defs)

text \<open>
  C5 (amended): when no query of the probe fails, a missing marker file makes the probe
  return without an error and without a change. When \<^verbatim>\<open>canonical\<close> or a query of a
  marker file raises, the flag does stay as it was, but the exception is not contained:
  lines 43 to 47 throw, \<^verbatim>\<open>HDProject\<close>, the input bring-up and the configuration load are
  not called, and if the version detection had succeeded \<^verbatim>\<open>DllMain\<close> is left by an
  exception.
\<close>

theorem probe_fault_leaves_DllMain:
  assumes run: "DllMain e h DLL_PROCESS_ATTACH s = (res, s')" and tr: "trace s' = trace s @ evs"
  shows "(probe_fault e (files s) \<longrightarrow>
            detect_HDProject e s = (Thrown, s) \<and>
            bIsUsingHDProject s' = bIsUsingHDProject s \<and>
            Call HDProject \<notin> set evs \<and> Call Input_init \<notin> set evs \<and>
            Call ReadConnection \<notin> set evs \<and>
            (returns e Game \<longrightarrow> res = Thrown)) \<and>
         (\<not> probe_fault e (files s) \<and> \<not> markers_present e (files s) \<longrightarrow>
            detect_HDProject e s = (Returned (), s))"
proof -
  have a: "detect_HDProject e s = (Thrown, s) \<and>
            bIsUsingHDProject s' = bIsUsingHDProject s \<and>
            Call HDProject \<notin> set evs \<and> Call Input_init \<notin> set evs \<and>
            Call ReadConnection \<notin> set evs \<and>
            (returns e Game \<longrightarrow> res = Thrown)" if "probe_fault e (files s)"
    using run tr that by (auto simp: prog_defs steps detect_HDProject_unfold split: if_splits)
  have b: "detect_HDProject e s = (Returned (), s)"
    if "\<not> probe_fault e (files s) \<and> \<not> markers_present e (files s)"
    using that by (simp add: detect_HDProject_unfold)
  from a b show ?thesis by blast
qed

theorem probe_fault_leaves_DllMain_witness:
  "probe_fault env_ok (files s_xsb_error) \<and> returns env_ok Game \<and>
   detect_HDProject env_ok s_xsb_error = (Thrown, s_xsb_error) \<and>
   fst (DllMain env_ok 1 DLL_PROCESS_ATTACH s_xsb_error) = Thrown \<and>
   \<not> bIsUsingHDProject (snd (DllMain env_ok 1 DLL_PROCESS_ATTACH s_xsb_error)) \<and>
   Call ReadConnection \<notin> set (trace (snd (DllMain env_ok 1 DLL_PROCESS_ATTACH s_xsb_error)))"
proof -
  have run: "DllMain env_ok 1 DLL_PROCESS_ATTACH s_xsb_error =
        (fst (DllMain env_ok 1 DLL_PROCESS_ATTACH s_xsb_error),
         snd (DllMain env_ok 1 DLL_PROCESS_ATTACH s_xsb_error))"
    by simp
  have tr: "trace (snd (DllMain env_ok 1 DLL_PROCESS_ATTACH s_xsb_error)) =
        trace s_xsb_error @ trace (snd (DllMain env_ok 1 DLL_PROCESS_ATTACH s_xsb_error))"
    by (simp add: s_xsb_error_def s_plain_def)
  have pf: "probe_fault env_ok (files s_xsb_error)"
    by (simp add: eval_defs sample_defs)
  have g: "returns env_ok Game"
    by (simp add: env_ok_def)
  have fl: "\<not> bIsUsingHDProject s_xsb_error"
    by (simp add: s_xsb_error_def s_plain_def)
  from probe_fault_leaves_DllMain [OF run tr] pf g fl show ?thesis by simp
qed

section \<open>Faults inside a step\<close>

text \<open>
  C9 (as the specification states it): a fault raised inside a soft step (artifact,
  logging, variant activation, configuration load) does not keep later steps from
  running and does not get past the fault containment. Nothing in \<^verbatim>\<open>Init_Main\<close> or
  \<^verbatim>\<open>DllMain\<close> catches an exception: when \<^verbatim>\<open>HDProject()\<close> throws, neither the input
  bring-up nor the configuration load runs, and \<^verbatim>\<open>DllMain\<close> is left by the exception.
\<close>

theorem soft_step_fault_counterexample:
  "throws env_hd_throws (Call HDProject) \<and>
   Call HDProject \<in> set (trace (snd (DllMain env_hd_throws 1 DLL_PROCESS_ATTACH s_hd))) \<and>
   fst (DllMain env_hd_throws 1 DLL_PROCESS_ATTACH s_hd) = Thrown \<and>
   Call Input_init \<notin> set (trace (snd (DllMain env_hd_throws 1 DLL_PROCESS_ATTACH s_hd))) \<and>
   Call ReadConnection \<notin> set (trace (snd (DllMain env_hd_throws 1 DLL_PROCESS_ATTACH s_hd)))"
  by (simp add: eval_defs sample_defs)

text \<open>
  C9 (amended): a soft step that fails without raising does not stop the sequence: when
  the version detection succeeds, no call throws and no file system query fails, the
  run ends with the input bring-up and the configuration load and \<^verbatim>\<open>DllMain\<close> returns
  true, whether or not the artifact could be created and whatever the collaborators
  return. A fault that is raised is not contained: a call that throws is the last call
  of the attach and \<^verbatim>\<open>DllMain\<close> is left by the exception, and a failing file system
  query leaves out the input bring-up and the configuration load.
\<close>

theorem raised_fault_ends_attach:
  assumes run: "DllMain e h DLL_PROCESS_ATTACH s = (res, s')" and tr: "trace s' = trace s @ evs"
  shows "(\<forall>ev. ev \<in> set evs \<and> throws e ev \<longrightarrow> res = Thrown \<and> last evs = ev) \<and>
         (appid_fault s \<or> probe_fault e (files s) \<longrightarrow>
            Call Input_init \<notin> set evs \<and> Call ReadConnection \<notin> set evs) \<and>
         (returns e Game \<and> \<not> appid_fault s \<and> \<not> probe_fault e (files s) \<and>
          (\<forall>ev. \<not> throws e ev) \<longrightarrow>
            res = Returned True \<and> (\<exists>pre. evs = pre @ [Call Input_init, Call ReadConnection]))"
proof -
  have a: "res = Thrown \<and> last evs = ev" if "ev \<in> set evs \<and> throws e ev" for ev
    using run tr that by (auto simp: prog_defs steps split: if_splits)
  have b: "Call Input_init \<notin> set evs \<and> Call ReadConnection \<notin> set evs"
    if "appid_fault s \<or> probe_fault e (files s)"
    using run tr that by (auto simp: prog_defs steps split: if_splits)
  have c: "res = Returned True \<and> (\<exists>pre. evs = pre @ [Call Input_init, Call ReadConnection])"
    if "returns e Game \<and> \<not> appid_fault s \<and> \<not> probe_fault e (files s) \<and>
          (\<forall>ev. \<not> throws e ev)"
    using run tr that by (auto simp: prog_defs steps split: if_splits)
  from a b c show ?thesis by blast
qed

theorem raised_fault_ends_attach_witness:
  "\<not> can_open env_soft_failures steam_appid_txt \<and>
   \<not> returns env_soft_failures HDProject \<and> \<not> returns env_soft_failures ReadConnection \<and>
   returns env_soft_failures Game \<and> \<not> appid_fault s_hd \<and>
   \<not> probe_fault env_soft_failures (files s_hd) \<and>
   fst (DllMain env_soft_failures 1 DLL_PROCESS_ATTACH s_hd) = Returned True \<and>
   (\<exists>pre. trace (snd (DllMain env_soft_failures 1 DLL_PROCESS_ATTACH s_hd))
            = pre @ [Call Input_init, Call ReadConnection])"
proof -
  have run: "DllMain env_soft_failures 1 DLL_PROCESS_ATTACH s_hd =
        (fst (DllMain env_soft_failures 1 DLL_PROCESS_ATTACH s_hd),
         snd (DllMain env_soft_failures 1 DLL_PROCESS_ATTACH s_hd))"
    by simp
  have tr: "trace (snd (DllMain env_soft_failures 1 DLL_PROCESS_ATTACH s_hd)) =
        trace s_hd @ trace (snd (DllMain env_soft_failures 1 DLL_PROCESS_ATTACH s_hd))"
    by (simp add: s_hd_def s_plain_def)
  have env: "\<not> can_open env_soft_failures steam_appid_txt"
    "\<not> returns env_soft_failures HDProject" "\<not> returns env_soft_failures ReadConnection"
    "returns env_soft_failures Game" "\<forall>ev. \<not> throws env_soft_failures ev"
    by (simp_all add: env_soft_failures_def env_ok_def)
  have af: "\<not> appid_fault s_hd" and pf: "\<not> probe_fault env_soft_failures (files s_hd)"
    by (simp_all add: eval_defs sample_defs env_soft_failures_def)
  from raised_fault_ends_attach [OF run tr] env af pf show ?thesis by simp
qed

end
